theory Spec2Isabelle
  imports Complex_Main "HOL-Library.Sublist"
begin

section \<open>Python values\<close>

text \<open>
  The webhook handlers of \<^verbatim>\<open>ochazuke/webhook/__init__.py\<close> and
  \<^verbatim>\<open>ochazuke/webhooks/helpers.py\<close> work on the value that \<^verbatim>\<open>json.loads\<close> returns.
  A JSON object is an association list read with \<open>map_of\<close> (the first binding of a key
  is the dictionary's entry). Strings are byte strings; the literals \<^verbatim>\<open>NaN\<close> and
  \<^verbatim>\<open>Infinity\<close> that Python's decoder also accepts have no value here.
\<close>

datatype json =
    JNull
  | JBool bool
  | JInt int
  | JFloat real
  | JStr string
  | JList "json list"
  | JObj "(string \<times> json) list"

text \<open>The exceptions the handlers can raise. A raise is the left injection of a sum.\<close>

datatype exn =
    KeyError
  | TypeError
  | AttributeError
  | ValueError
  | UnboundLocalError
  | SQLAlchemyError
  | NoResultFound
  | MultipleResultsFound

definition bind_exn :: "exn + 'a \<Rightarrow> ('a \<Rightarrow> exn + 'b) \<Rightarrow> exn + 'b" where
  "bind_exn m f = (case m of Inl e \<Rightarrow> Inl e | Inr x \<Rightarrow> f x)"

text \<open>Truth value of an object in a condition (\<^verbatim>\<open>if x:\<close>).\<close>

fun truthy :: "json \<Rightarrow> bool" where
  "truthy JNull = False"
| "truthy (JBool b) = b"
| "truthy (JInt i) = (i \<noteq> 0)"
| "truthy (JFloat r) = (r \<noteq> 0)"
| "truthy (JStr s) = (s \<noteq> [])"
| "truthy (JList xs) = (xs \<noteq> [])"
| "truthy (JObj kvs) = (kvs \<noteq> [])"

text \<open>\<^verbatim>\<open>x.get(k)\<close>: only a dict has the method; a missing key gives \<^verbatim>\<open>None\<close>.\<close>

fun dict_get :: "json \<Rightarrow> string \<Rightarrow> exn + json" where
  "dict_get (JObj kvs) k = Inr (case map_of kvs k of None \<Rightarrow> JNull | Some v \<Rightarrow> v)"
| "dict_get _ k = Inl AttributeError"

text \<open>
  \<^verbatim>\<open>x[k]\<close> with a string key: a dict raises KeyError on a missing key; \<^verbatim>\<open>None\<close>,
  numbers and booleans are not subscriptable, strings and lists want integer indices.
\<close>

fun subscript :: "json \<Rightarrow> string \<Rightarrow> exn + json" where
  "subscript (JObj kvs) k = (case map_of kvs k of None \<Rightarrow> Inl KeyError | Some v \<Rightarrow> Inr v)"
| "subscript _ k = Inl TypeError"

text \<open>\<^verbatim>\<open>k in x\<close> for a string \<open>k\<close>.\<close>

fun contains :: "string \<Rightarrow> json \<Rightarrow> exn + bool" where
  "contains k (JObj kvs) = Inr (map_of kvs k \<noteq> None)"
| "contains k (JList xs) = Inr (JStr k \<in> set xs)"
| "contains k (JStr s) = Inr (sublist k s)"
| "contains k _ = Inl TypeError"

text \<open>\<^verbatim>\<open>a or b\<close> on two strings: the first operand unless it is empty.\<close>

definition py_or :: "string \<Rightarrow> string \<Rightarrow> string" where
  "py_or a b = (if a \<noteq> [] then a else b)"

text \<open>\<^verbatim>\<open>s.split(sep)\<close> for a one-character separator.\<close>

fun str_split :: "char \<Rightarrow> string \<Rightarrow> string list" where
  "str_split sep [] = [[]]"
| "str_split sep (c # cs) =
     (if c = sep then [] # str_split sep cs
      else (case str_split sep cs of p # ps \<Rightarrow> (c # p) # ps | [] \<Rightarrow> [[c]]))"

text \<open>
  \<^verbatim>\<open>hmac.compare_digest(a, b)\<close> on two \<^verbatim>\<open>str\<close> arguments: the standard library
  accepts ASCII-only strings and raises TypeError otherwise.
\<close>

definition is_ascii :: "string \<Rightarrow> bool" where
  "is_ascii s = list_all (\<lambda>c. (of_char c :: nat) < 128) s"

definition compare_digest :: "string \<Rightarrow> string \<Rightarrow> exn + bool" where
  "compare_digest a b = (if is_ascii a \<and> is_ascii b then Inr (a = b) else Inl TypeError)"

section \<open>Signature validation\<close>

text \<open>
  \<^verbatim>\<open>get_payload_signature(key, payload)\<close> is
  \<^verbatim>\<open>hmac.new(key.encode('utf-8'), msg=payload, digestmod=hashlib.sha1).hexdigest()\<close>.
  The keyed hash is the standard library's; it is the parameter \<open>hexdigest\<close>.
\<close>

definition get_payload_signature :: "(string \<Rightarrow> string \<Rightarrow> string) \<Rightarrow> string \<Rightarrow> string \<Rightarrow> string" where
  "get_payload_signature hexdigest key payload = hexdigest key payload"

text \<open>
  \<^verbatim>\<open>sha_name, signature = post_signature.split('=')\<close> unpacks into exactly two names:
  any other number of parts raises ValueError.
\<close>

definition signature_check ::
  "(string \<Rightarrow> string \<Rightarrow> string) \<Rightarrow> string \<Rightarrow> string \<Rightarrow> string \<Rightarrow> exn + bool" where
  "signature_check hexdigest key post_signature payload =
     (if prefix ''sha1='' post_signature then
        (case str_split CHR ''='' post_signature of
           [sha_name, signature] \<Rightarrow>
             if signature = [] then Inr False
             else compare_digest (get_payload_signature hexdigest key payload) signature
         | _ \<Rightarrow> Inl ValueError)
      else Inr False)"

text \<open>
  The request: \<open>headers r name\<close> is \<^verbatim>\<open>request.headers.get(name)\<close>, \<open>data r\<close> the raw
  body. The secret \<^verbatim>\<open>ochazuke.app.config['HOOK_SECRET_KEY']\<close> is the parameter \<open>key\<close>.
\<close>

record request =
  headers :: "string \<rightharpoonup> string"
  data :: string

definition is_github_hook ::
  "(string \<Rightarrow> string \<Rightarrow> string) \<Rightarrow> string \<Rightarrow> request \<Rightarrow> exn + bool" where
  "is_github_hook hexdigest key r =
     (if headers r ''X-GitHub-Event'' = None then Inr False
      else (case headers r ''X-Hub-Signature'' of
              None \<Rightarrow> Inr False
            | Some post_signature \<Rightarrow>
                if post_signature \<noteq> [] then signature_check hexdigest key post_signature (data r)
                else Inr False))"

section \<open>Event classification\<close>

text \<open>
  The last \<^verbatim>\<open>elif\<close> of \<^verbatim>\<open>is_desirable_issue_event\<close> only writes a log line; both of
  its outcomes fall through to \<^verbatim>\<open>return False\<close>, as does an edit whose
  \<^verbatim>\<open>changes.get('title')\<close> is falsy.
\<close>

definition is_desirable_issue_event :: "json \<Rightarrow> json \<Rightarrow> exn + bool" where
  "is_desirable_issue_event act chg =
     (if act \<in> set (map JStr [''opened'', ''closed'', ''reopened'', ''labeled'', ''unlabeled'',
                               ''milestoned'', ''unmilestoned'']) then Inr True
      else if act = JStr ''edited'' \<and> truthy chg then
        bind_exn (dict_get chg ''title'') (\<lambda>t. if truthy t then Inr True else Inr False)
      else if act \<notin> set (map JStr [''assigned'', ''unassigned'', ''edited'']) then Inr False
      else Inr False)"

section \<open>Event extraction\<close>

text \<open>
  The normalized event record: the dictionary \<^verbatim>\<open>issue_event_info\<close> with its eight
  fixed keys. No other key exists, so reading \<^verbatim>\<open>info['milestone_id']\<close> raises KeyError.
\<close>

record issue_event_info =
  issue_id :: json
  title :: json
  created_at :: json
  milestone :: json
  actor :: json
  action :: json
  details :: json
  received_at :: json

definition subscript2 :: "json \<Rightarrow> string \<Rightarrow> string \<Rightarrow> exn + json" where
  "subscript2 x k1 k2 = bind_exn (subscript x k1) (\<lambda>y. subscript y k2)"

definition subscript3 :: "json \<Rightarrow> string \<Rightarrow> string \<Rightarrow> string \<Rightarrow> exn + json" where
  "subscript3 x k1 k2 k3 = bind_exn (subscript2 x k1 k2) (\<lambda>y. subscript y k3)"

text \<open>
  The detail value of \<^verbatim>\<open>extract_issue_event_info\<close>. The second test is written
  \<^verbatim>\<open>action == ('milestoned' or 'demilestoned')\<close> in the source.
\<close>

definition extract_details :: "json \<Rightarrow> json \<Rightarrow> json \<Rightarrow> exn + json" where
  "extract_details pl act chg =
     (if act \<in> set (map JStr [''opened'', ''closed'', ''reopened'', ''edited'']) then
        (if truthy chg then
           bind_exn (dict_get chg ''title'') (\<lambda>t.
             if truthy t then
               bind_exn (subscript2 chg ''title'' ''from'') (\<lambda>old.
                 Inr (JObj [(''old title'', old)]))
             else Inr JNull)
         else Inr JNull)
      else if act = JStr (py_or ''milestoned'' ''demilestoned'') then
        bind_exn (subscript3 pl ''issue'' ''milestone'' ''title'') (\<lambda>t.
          Inr (JObj [(''milestone title'', t)]))
      else
        bind_exn (subscript2 pl ''label'' ''name'') (\<lambda>n.
          Inr (JObj [(''label name'', n)])))"

definition extract_issue_event_info :: "json \<Rightarrow> json \<Rightarrow> json \<Rightarrow> exn + issue_event_info" where
  "extract_issue_event_info pl act chg =
     bind_exn (subscript2 pl ''issue'' ''milestone'') (\<lambda>ms.
     bind_exn (if truthy ms then dict_get ms ''title'' else Inr JNull) (\<lambda>milestone_title.
     bind_exn (extract_details pl act chg) (\<lambda>det.
     bind_exn (subscript2 pl ''issue'' ''number'') (\<lambda>num.
     bind_exn (subscript2 pl ''issue'' ''title'') (\<lambda>ttl.
     bind_exn (subscript2 pl ''issue'' ''created_at'') (\<lambda>cre.
     bind_exn (subscript2 pl ''sender'' ''login'') (\<lambda>login.
     bind_exn (subscript2 pl ''issue'' ''updated_at'') (\<lambda>upd.
       Inr \<lparr>issue_id = num, title = ttl, created_at = cre, milestone = milestone_title,
            actor = login, action = act, details = det, received_at = upd\<rparr>))))))))"

section \<open>Persistence\<close>

text \<open>
  Modelled from the spec: the classes \<^verbatim>\<open>Issue\<close>, \<^verbatim>\<open>Event\<close>, \<^verbatim>\<open>Label\<close> and
  \<^verbatim>\<open>Milestone\<close> of \<^verbatim>\<open>ochazuke.models\<close>, which is not among the sources. The fields
  are those of the spec's data model and of the constructor calls and attribute accesses
  in \<^verbatim>\<open>helpers.py\<close>; values taken from a payload are kept as the JSON values they are.
\<close>

record issue_row =
  i_id :: json
  i_title :: json
  i_created_at :: json
  i_milestone_id :: "nat option"
  i_is_open :: bool
  i_labels :: "nat list"

record event_row =
  e_id :: nat
  e_issue_id :: json
  e_actor :: json
  e_action :: json
  e_details :: json
  e_received_at :: json

record label_row =
  l_id :: nat
  l_name :: json

record milestone_row =
  m_id :: nat
  m_title :: json

record store =
  issue_table :: "issue_row list"
  event_table :: "event_row list"
  label_table :: "label_row list"
  milestone_table :: "milestone_row list"

text \<open>
  \<^verbatim>\<open>db.session\<close>: the rows as the database holds them (\<open>committed\<close>), the rows as the
  session sees them with its uncommitted changes (\<open>pending\<close>), and for each coming
  \<^verbatim>\<open>commit()\<close> whether the database accepts it (an exhausted list accepts).
\<close>

record session =
  committed :: store
  pending :: store
  commit_results :: "bool list"

type_synonym 'a effect = "session \<Rightarrow> (exn + 'a) \<times> session"

definition then_do :: "'a effect \<Rightarrow> ('a \<Rightarrow> 'b effect) \<Rightarrow> 'b effect" where
  "then_do m f s = (case m s of (Inl e, s1) \<Rightarrow> (Inl e, s1) | (Inr x, s1) \<Rightarrow> f x s1)"

definition session_commit :: "unit effect" where
  "session_commit s =
     (case commit_results s of
        [] \<Rightarrow> (Inr (), s\<lparr>committed := pending s\<rparr>)
      | ok # rest \<Rightarrow>
          if ok then (Inr (), s\<lparr>committed := pending s, commit_results := rest\<rparr>)
          else (Inl SQLAlchemyError, s\<lparr>commit_results := rest\<rparr>))"

definition session_rollback :: "session \<Rightarrow> session" where
  "session_rollback s = s\<lparr>pending := committed s\<rparr>"

definition fresh_id :: "nat list \<Rightarrow> nat" where
  "fresh_id ids = Suc (fold max ids 0)"

definition session_add_event :: "json \<Rightarrow> json \<Rightarrow> json \<Rightarrow> json \<Rightarrow> json \<Rightarrow> session \<Rightarrow> session" where
  "session_add_event iss act_or act det rec s =
     s\<lparr>pending := (pending s)\<lparr>event_table := event_table (pending s) @
        [\<lparr>e_id = fresh_id (map e_id (event_table (pending s))), e_issue_id = iss,
          e_actor = act_or, e_action = act, e_details = det, e_received_at = rec\<rparr>]\<rparr>\<rparr>"

definition session_add_label :: "json \<Rightarrow> session \<Rightarrow> session" where
  "session_add_label name s =
     s\<lparr>pending := (pending s)\<lparr>label_table := label_table (pending s) @
        [\<lparr>l_id = fresh_id (map l_id (label_table (pending s))), l_name = name\<rparr>]\<rparr>\<rparr>"

definition session_add_milestone :: "json \<Rightarrow> session \<Rightarrow> session" where
  "session_add_milestone ttl s =
     s\<lparr>pending := (pending s)\<lparr>milestone_table := milestone_table (pending s) @
        [\<lparr>m_id = fresh_id (map m_id (milestone_table (pending s))), m_title = ttl\<rparr>]\<rparr>\<rparr>"

text \<open>\<^verbatim>\<open>Issue.query.get(k)\<close>: the issue with that number, or \<^verbatim>\<open>None\<close>.\<close>

definition issue_query_get :: "json \<Rightarrow> session \<Rightarrow> issue_row option" where
  "issue_query_get k s = find (\<lambda>i. i_id i = k) (issue_table (pending s))"

text \<open>Assigning to an attribute of the issue object that \<open>issue_query_get\<close> returned.\<close>

fun update_issue :: "json \<Rightarrow> (issue_row \<Rightarrow> issue_row) \<Rightarrow> issue_row list \<Rightarrow> issue_row list" where
  "update_issue k f [] = []"
| "update_issue k f (i # rows) = (if i_id i = k then f i # rows else i # update_issue k f rows)"

definition set_issue :: "json \<Rightarrow> (issue_row \<Rightarrow> issue_row) \<Rightarrow> session \<Rightarrow> session" where
  "set_issue k f s = s\<lparr>pending := (pending s)\<lparr>issue_table := update_issue k f (issue_table (pending s))\<rparr>\<rparr>"

text \<open>
  \<^verbatim>\<open>Model.query.filter_by(column=value)\<close> builds a query object and reads no row; an
  attribute assigned to it is an attribute of the query object.
\<close>

datatype query = Query (q_model: string) (q_filter: "string \<times> json") (q_attrs: "(string \<times> json) list")

definition filter_by :: "string \<Rightarrow> string \<Rightarrow> json \<Rightarrow> query" where
  "filter_by model column v = Query model (column, v) []"

definition set_query_attr :: "query \<Rightarrow> string \<Rightarrow> json \<Rightarrow> query" where
  "set_query_attr q name v = Query (q_model q) (q_filter q) ((name, v) # q_attrs q)"

text \<open>\<^verbatim>\<open>Label.query.filter_by(name=v).one()\<close>: exactly one row, or an exception.\<close>

definition label_one :: "json \<Rightarrow> session \<Rightarrow> exn + label_row" where
  "label_one v s =
     (case filter (\<lambda>l. l_name l = v) (label_table (pending s)) of
        [] \<Rightarrow> Inl NoResultFound
      | [l] \<Rightarrow> Inr l
      | _ \<Rightarrow> Inl MultipleResultsFound)"

text \<open>\<^verbatim>\<open>xs.remove(x)\<close> on a list: the first occurrence goes, ValueError when there is none.\<close>

definition list_remove :: "nat \<Rightarrow> nat list \<Rightarrow> exn + nat list" where
  "list_remove x xs = (if x \<in> set xs then Inr (remove1 x xs) else Inl ValueError)"

section \<open>Issue transitions\<close>

text \<open>
  \<^verbatim>\<open>add_new_issue\<close>. \<^verbatim>\<open>Milestone.query.filter_by(milestone_title)\<close> passes the title
  as a positional argument; \<^verbatim>\<open>filter_by\<close> takes keyword criteria only, so the call
  raises TypeError. Without a milestone title the name \<^verbatim>\<open>milestone\<close> is never bound
  and \<^verbatim>\<open>milestone.id\<close> raises UnboundLocalError. A query object has no attribute
  \<^verbatim>\<open>id\<close>. The statements after the constructor call are never reached.
\<close>

definition filter_by_positional :: "string \<Rightarrow> json \<Rightarrow> exn + query" where
  "filter_by_positional model v = Inl TypeError"

definition add_new_issue :: "issue_event_info \<Rightarrow> unit effect" where
  "add_new_issue info s =
     (let milestone_title = milestone info in
      case (if truthy milestone_title
            then map_sum id Some (filter_by_positional ''Milestone'' milestone_title)
            else Inr None) of
        Inl e \<Rightarrow> (Inl e, s)
      | Inr None \<Rightarrow> (Inl UnboundLocalError, s)
      | Inr (Some q) \<Rightarrow> (Inl AttributeError, s))"

text \<open>
  \<^verbatim>\<open>add_new_event\<close>. After a successful commit the log message is built with
  \<^verbatim>\<open>'New event ({evg}) ...'.format(evt=event)\<close>: the template's field \<^verbatim>\<open>evg\<close> is not
  among the arguments and \<^verbatim>\<open>format\<close> raises KeyError, which the handler for
  \<^verbatim>\<open>SQLAlchemyError\<close> does not catch.
\<close>

definition add_new_event :: "issue_event_info \<Rightarrow> unit effect" where
  "add_new_event info s =
     (case session_commit
             (session_add_event (issue_id info) (actor info) (action info) (details info)
                (received_at info) s) of
        (Inr u, s1) \<Rightarrow> (Inl KeyError, s1)
      | (Inl e, s1) \<Rightarrow>
          if e = SQLAlchemyError then (Inr (), session_rollback s1) else (Inl e, s1))"

definition issue_title_edit :: "issue_event_info \<Rightarrow> unit effect" where
  "issue_title_edit info s =
     (case issue_query_get (issue_id info) s of
        None \<Rightarrow> (Inl AttributeError, s)
      | Some bug \<Rightarrow> session_commit (set_issue (issue_id info) (\<lambda>i. i\<lparr>i_title := title info\<rparr>) s))"

text \<open>
  \<^verbatim>\<open>status[action]\<close> on \<^verbatim>\<open>{'closed': False, 'reopened': True}\<close>: a list or a dict is
  unhashable (TypeError), any other key is missing (KeyError).
\<close>

fun status_lookup :: "json \<Rightarrow> exn + bool" where
  "status_lookup (JStr a) =
     (if a = ''closed'' then Inr False else if a = ''reopened'' then Inr True else Inl KeyError)"
| "status_lookup (JList xs) = Inl TypeError"
| "status_lookup (JObj kvs) = Inl TypeError"
| "status_lookup _ = Inl KeyError"

definition issue_status_change :: "issue_event_info \<Rightarrow> json \<Rightarrow> unit effect" where
  "issue_status_change info act s =
     (case status_lookup act of
        Inl e \<Rightarrow> (Inl e, s)
      | Inr b \<Rightarrow>
          (case issue_query_get (issue_id info) s of
             None \<Rightarrow> (Inl AttributeError, s)
           | Some bug \<Rightarrow> session_commit (set_issue (issue_id info) (\<lambda>i. i\<lparr>i_is_open := b\<rparr>) s)))"

text \<open>
  \<^verbatim>\<open>issue_milestone_change\<close>. In the first branch the right-hand side
  \<^verbatim>\<open>info['milestone_id']\<close> is evaluated before the assignment and raises KeyError.
\<close>

definition issue_milestone_change :: "issue_event_info \<Rightarrow> unit effect" where
  "issue_milestone_change info s =
     (if action info = JStr ''milestoned'' then (Inl KeyError, s)
      else (case issue_query_get (issue_id info) s of
              None \<Rightarrow> (Inl AttributeError, s)
            | Some issue \<Rightarrow>
                session_commit (set_issue (issue_id info) (\<lambda>i. i\<lparr>i_milestone_id := None\<rparr>) s)))"

definition issue_label_change :: "issue_event_info \<Rightarrow> unit effect" where
  "issue_label_change info s =
     (case subscript (details info) ''label name'' of
        Inl e \<Rightarrow> (Inl e, s)
      | Inr label_name \<Rightarrow>
          (case label_one label_name s of
             Inl e \<Rightarrow> (Inl e, s)
           | Inr lbl \<Rightarrow>
               (case issue_query_get (issue_id info) s of
                  None \<Rightarrow> (Inl AttributeError, s)
                | Some issue \<Rightarrow>
                    if action info = JStr ''labeled'' then
                      session_commit
                        (set_issue (issue_id info) (\<lambda>i. i\<lparr>i_labels := i_labels i @ [l_id lbl]\<rparr>) s)
                    else
                      (case list_remove (l_id lbl) (i_labels issue) of
                         Inl e \<Rightarrow> (Inl e, s)
                       | Inr ls \<Rightarrow>
                           session_commit (set_issue (issue_id info) (\<lambda>i. i\<lparr>i_labels := ls\<rparr>) s)))))"

text \<open>
  \<^verbatim>\<open>update_db\<close>: the chain of tests (\<open>issue_transition\<close>), then \<^verbatim>\<open>add_new_event\<close>.
  The handler \<^verbatim>\<open>issues_hooklistener\<close> repeats the same statements on
  \<^verbatim>\<open>issue_event_info\<close> instead of calling the function.
\<close>

definition issue_transition :: "issue_event_info \<Rightarrow> json \<Rightarrow> unit effect" where
  "issue_transition info act =
     (if act = JStr ''opened'' then add_new_issue info
      else if act = JStr ''edited'' then issue_title_edit info
      else if act = JStr (py_or ''closed'' ''reopened'') then issue_status_change info act
      else if act = JStr (py_or ''milestoned'' ''unmilestoned'') then issue_milestone_change info
      else if act = JStr (py_or ''labeled'' ''unlabeled'') then issue_label_change info
      else (\<lambda>s. (Inr (), s)))"

definition update_db :: "issue_event_info \<Rightarrow> json \<Rightarrow> unit effect" where
  "update_db info act = then_do (issue_transition info act) (\<lambda>u. add_new_event info)"

section \<open>Label and milestone notifications\<close>

text \<open>
  \<^verbatim>\<open>db.session\<close> is a scoped session, whose \<^verbatim>\<open>remove()\<close> takes no argument:
  \<^verbatim>\<open>db.session.remove(label)\<close> raises TypeError.
\<close>

definition session_remove :: "query \<Rightarrow> unit effect" where
  "session_remove q s = (Inl TypeError, s)"

definition process_label_event_info :: "json \<Rightarrow> unit effect" where
  "process_label_event_info pl s =
     (case bind_exn (subscript pl ''action'') (\<lambda>act.
           bind_exn (subscript2 pl ''label'' ''name'') (\<lambda>label_name.
           bind_exn (contains ''changes'' pl) (\<lambda>has_changes.
           bind_exn (if has_changes then subscript3 pl ''changes'' ''name'' ''from''
                     else Inr JNull) (\<lambda>prior_name.
             Inr (act, label_name, prior_name))))) of
        Inl e \<Rightarrow> (Inl e, s)
      | Inr (act, label_name, prior_name) \<Rightarrow>
          if act = JStr ''created'' then session_commit (session_add_label label_name s)
          else if truthy prior_name then
            (let label = set_query_attr (filter_by ''Label'' ''name'' prior_name) ''name'' label_name
             in session_commit s)
          else
            then_do (session_remove (filter_by ''Label'' ''name'' label_name))
              (\<lambda>u. session_commit) s)"

definition process_milestone_event_info :: "json \<Rightarrow> unit effect" where
  "process_milestone_event_info pl s =
     (case bind_exn (subscript pl ''action'') (\<lambda>act.
           bind_exn (subscript2 pl ''milestone'' ''title'') (\<lambda>milestone_title.
           bind_exn (contains ''changes'' pl) (\<lambda>has_changes.
           bind_exn (if has_changes then subscript2 pl ''changes'' ''title''
                     else Inr JNull) (\<lambda>prior_title.
             Inr (act, milestone_title, prior_title))))) of
        Inl e \<Rightarrow> (Inl e, s)
      | Inr (act, milestone_title, prior_title) \<Rightarrow>
          if act = JStr ''created'' then session_commit (session_add_milestone milestone_title s)
          else if truthy prior_title then
            (let ms = set_query_attr (filter_by ''Milestone'' ''title'' prior_title)
                        ''title'' milestone_title
             in session_commit s)
          else
            then_do (session_remove (filter_by ''Milestone'' ''title'' milestone_title))
              (\<lambda>u. session_commit) s)"

section \<open>The webhook endpoint\<close>

type_synonym response = "string \<times> nat \<times> (string \<times> string) list"

definition TEXT_PLAIN :: "(string \<times> string) list" where
  "TEXT_PLAIN = [(''Content-Type'', ''text/plain'')]"

definition MEH_RESPONSE :: response where
  "MEH_RESPONSE = (''We may just circular-file that, but thanks!'', 202, TEXT_PLAIN)"

definition NO_AUTH :: response where
  "NO_AUTH = (''This is not the hook we seek.'', 403, TEXT_PLAIN)"

text \<open>
  The \<^verbatim>\<open>try\<close> block of the handler binds \<^verbatim>\<open>payload\<close>, \<^verbatim>\<open>action\<close> and \<^verbatim>\<open>changes\<close>
  in turn; \<^verbatim>\<open>except Exception\<close> logs whatever is raised and leaves the remaining names
  unbound (\<open>None\<close> here). \<open>loads\<close> is \<^verbatim>\<open>json.loads\<close>, with \<open>None\<close> for a body it
  rejects.
\<close>

definition parse_body :: "(string \<Rightarrow> json option) \<Rightarrow> string \<Rightarrow> json option \<times> json option \<times> json option" where
  "parse_body loads body =
     (case loads body of
        None \<Rightarrow> (None, None, None)
      | Some pl \<Rightarrow>
          (case dict_get pl ''action'' of
             Inl e \<Rightarrow> (Some pl, None, None)
           | Inr act \<Rightarrow>
               (case dict_get pl ''changes'' of
                  Inl e \<Rightarrow> (Some pl, Some act, None)
                | Inr chg \<Rightarrow> (Some pl, Some act, Some chg))))"

text \<open>Reading a local name: UnboundLocalError when it was never bound.\<close>

definition local_var :: "'a option \<Rightarrow> exn + 'a" where
  "local_var v = (case v of None \<Rightarrow> Inl UnboundLocalError | Some x \<Rightarrow> Inr x)"

text \<open>
  The result of the view function is the response tuple, or \<open>None\<close> where the function
  ends without a \<^verbatim>\<open>return\<close> (after a label notification and after a processed
  milestone notification).
\<close>

definition issues_branch :: "json option \<Rightarrow> json option \<Rightarrow> json option \<Rightarrow> response option effect" where
  "issues_branch payload act chg s =
     (case bind_exn (local_var act) (\<lambda>a. bind_exn (local_var chg) (\<lambda>c.
             bind_exn (is_desirable_issue_event a c) (\<lambda>d. Inr (a, c, d)))) of
        Inl e \<Rightarrow> (Inl e, s)
      | Inr (a, c, d) \<Rightarrow>
          if d then
            (case bind_exn (local_var payload) (\<lambda>pl. extract_issue_event_info pl a c) of
               Inl e \<Rightarrow> (Inl e, s)
             | Inr issue_event_info \<Rightarrow>
                 then_do (update_db issue_event_info a)
                   (\<lambda>u s1. (Inr (Some (''Yay! Data! *munch, munch, munch*'', 200, TEXT_PLAIN)), s1)) s)
          else (Inr (Some MEH_RESPONSE), s))"

definition issues_hooklistener ::
  "(string \<Rightarrow> string \<Rightarrow> string) \<Rightarrow> string \<Rightarrow> (string \<Rightarrow> json option) \<Rightarrow> request
     \<Rightarrow> response option effect" where
  "issues_hooklistener hexdigest key loads r s =
     (case is_github_hook hexdigest key r of
        Inl e \<Rightarrow> (Inl e, s)
      | Inr ok \<Rightarrow>
          if \<not> ok then (Inr (Some (''Move along, nothing to see here'', 401, TEXT_PLAIN)), s)
          else
            (let event_type = headers r ''X-GitHub-Event'' in
             case parse_body loads (data r) of (payload, act, chg) \<Rightarrow>
               if event_type = Some ''issues'' then issues_branch payload act chg s
               else if event_type = Some ''label'' then
                 (case local_var payload of
                    Inl e \<Rightarrow> (Inl e, s)
                  | Inr pl \<Rightarrow> then_do (process_label_event_info pl) (\<lambda>u s1. (Inr None, s1)) s)
               else if event_type = Some ''milestone'' then
                 (case local_var act of
                    Inl e \<Rightarrow> (Inl e, s)
                  | Inr a \<Rightarrow>
                      if a \<in> set (map JStr [''created'', ''edited'', ''deleted'']) then
                        (case local_var payload of
                           Inl e \<Rightarrow> (Inl e, s)
                         | Inr pl \<Rightarrow>
                             then_do (process_milestone_event_info pl) (\<lambda>u s1. (Inr None, s1)) s)
                      else (Inr (Some MEH_RESPONSE), s))
               else if event_type = Some ''ping'' then (Inr (Some (''pong'', 200, TEXT_PLAIN)), s)
               else (Inr (Some NO_AUTH), s)))"

section \<open>Example notifications\<close>

text \<open>
  Concrete inputs for the evaluations below. \<open>example_hexdigest\<close> and the two decoders
  stand for the standard library on these inputs: the keyed hash of every example body
  is the digest that \<open>signed_request\<close> carries in its signature header, and the body
  decodes to the payload named with it (\<open>decode_as\<close>) or is rejected
  (\<open>decode_error\<close>).
\<close>

definition example_digest :: string where
  "example_digest = ''2fd4e1c67a2d28fced849ee1bb76e7391b93eb12''"

definition example_hexdigest :: "string \<Rightarrow> string \<Rightarrow> string" where
  "example_hexdigest key msg = example_digest"

definition decode_as :: "json \<Rightarrow> string \<Rightarrow> json option" where
  "decode_as pl body = Some pl"

definition decode_error :: "string \<Rightarrow> json option" where
  "decode_error body = None"

definition signed_request :: "string \<Rightarrow> string \<Rightarrow> request" where
  "signed_request event body =
     \<lparr>headers = [''X-GitHub-Event'' \<mapsto> event, ''X-Hub-Signature'' \<mapsto> ''sha1='' @ example_digest],
      data = body\<rparr>"

definition issue_payload :: "string \<Rightarrow> json \<Rightarrow> json \<Rightarrow> json" where
  "issue_payload act ttl ms =
     JObj [(''action'', JStr act),
           (''issue'', JObj [(''number'', JInt 42), (''title'', ttl),
                            (''created_at'', JStr ''2018-05-15T01:00:00Z''),
                            (''updated_at'', JStr ''2018-05-16T02:00:00Z''),
                            (''milestone'', ms)]),
           (''sender'', JObj [(''login'', JStr ''alice'')])]"

definition title_edit_payload :: json where
  "title_edit_payload =
     JObj [(''action'', JStr ''edited''),
           (''changes'', JObj [(''title'', JObj [(''from'', JStr ''Site broken on load'')])]),
           (''issue'', JObj [(''number'', JInt 42), (''title'', JStr ''Site broken on reload''),
                            (''created_at'', JStr ''2018-05-15T01:00:00Z''),
                            (''updated_at'', JStr ''2018-05-16T02:00:00Z''),
                            (''milestone'', JNull)]),
           (''sender'', JObj [(''login'', JStr ''alice'')])]"

definition label_rename_payload :: json where
  "label_rename_payload =
     JObj [(''action'', JStr ''edited''),
           (''changes'', JObj [(''name'', JObj [(''from'', JStr ''bug'')])]),
           (''label'', JObj [(''name'', JStr ''defect'')])]"

definition title_edit_info :: issue_event_info where
  "title_edit_info =
     \<lparr>issue_id = JInt 42, title = JStr ''Site broken on reload'',
      created_at = JStr ''2018-05-15T01:00:00Z'', milestone = JNull, actor = JStr ''alice'',
      action = JStr ''edited'', details = JObj [(''old title'', JStr ''Site broken on load'')],
      received_at = JStr ''2018-05-16T02:00:00Z''\<rparr>"

definition issue_42 :: issue_row where
  "issue_42 =
     \<lparr>i_id = JInt 42, i_title = JStr ''Site broken on load'',
      i_created_at = JStr ''2018-05-15T01:00:00Z'', i_milestone_id = Some 3,
      i_is_open = False, i_labels = []\<rparr>"

definition example_store :: store where
  "example_store =
     \<lparr>issue_table = [issue_42], event_table = [],
      label_table = [\<lparr>l_id = 1, l_name = JStr ''bug''\<rparr>],
      milestone_table = [\<lparr>m_id = 3, m_title = JStr ''needsdiagnosis''\<rparr>]\<rparr>"

definition session_of :: "store \<Rightarrow> bool list \<Rightarrow> session" where
  "session_of st results = \<lparr>committed = st, pending = st, commit_results = results\<rparr>"

section \<open>Evaluation and auxiliary facts\<close>

lemmas hook_defs = is_github_hook_def signature_check_def compare_digest_def is_ascii_def
  get_payload_signature_def example_hexdigest_def example_digest_def signed_request_def

lemmas eval_defs = issues_hooklistener_def hook_defs decode_as_def decode_error_def
  parse_body_def local_var_def issues_branch_def bind_exn_def is_desirable_issue_event_def
  extract_issue_event_info_def extract_details_def subscript2_def subscript3_def py_or_def
  update_db_def issue_transition_def then_do_def add_new_event_def add_new_issue_def
  issue_title_edit_def issue_status_change_def issue_milestone_change_def
  issue_label_change_def session_commit_def session_rollback_def session_add_event_def
  fresh_id_def issue_query_get_def set_issue_def issue_payload_def title_edit_payload_def
  label_rename_payload_def issue_42_def example_store_def session_of_def
  process_label_event_info_def session_add_label_def filter_by_def set_query_attr_def
  session_remove_def TEXT_PLAIN_def label_one_def list_remove_def title_edit_info_def

text \<open>
  The second literal of each \<^verbatim>\<open>action == (a or b)\<close> test is never matched: for these
  actions the chain of tests of the dispatcher runs no transition at all.
\<close>

lemma issue_transition_reopened: "issue_transition info (JStr ''reopened'') s = (Inr (), s)"
  by (simp add: issue_transition_def py_or_def)

lemma issue_transition_unmilestoned: "issue_transition info (JStr ''unmilestoned'') s = (Inr (), s)"
  by (simp add: issue_transition_def py_or_def)

lemma issue_transition_unlabeled: "issue_transition info (JStr ''unlabeled'') s = (Inr (), s)"
  by (simp add: issue_transition_def py_or_def)


text \<open>
  A body that \<^verbatim>\<open>json.loads\<close> rejects leaves \<^verbatim>\<open>payload\<close>, \<^verbatim>\<open>action\<close> and
  \<^verbatim>\<open>changes\<close> unbound; each of the three processing branches reads one of them first.
\<close>

lemma malformed_json_unbound:
  assumes "is_github_hook hexdigest key r = Inr True"
    and "loads (data r) = None"
    and "headers r ''X-GitHub-Event'' \<in> {Some ''issues'', Some ''label'', Some ''milestone''}"
  shows "issues_hooklistener hexdigest key loads r s = (Inl UnboundLocalError, s)"
  using assms
  by (auto simp: issues_hooklistener_def parse_body_def issues_branch_def local_var_def bind_exn_def)


text \<open>The answers of the endpoint: which requests get 401 and which get 403.\<close>

lemma issues_branch_status:
  "issues_branch payload act chg s = (Inr (Some (b, st, hs)), s') \<Longrightarrow> st = 200 \<or> st = 202"
  by (auto simp: issues_branch_def MEH_RESPONSE_def then_do_def
      split: sum.splits prod.splits if_splits)

lemma then_do_none:
  "(then_do m (\<lambda>u. Pair (Inr None)) s = (Inr (Some x), s')) = False"
  by (auto simp: then_do_def split: sum.splits prod.splits)

lemma missing_category_unauthorized:
  "headers r ''X-GitHub-Event'' = None \<Longrightarrow>
   issues_hooklistener hexdigest key loads r s
     = (Inr (Some (''Move along, nothing to see here'', 401, TEXT_PLAIN)), s)"
  by (simp add: issues_hooklistener_def is_github_hook_def)

lemma rejected_signature_unauthorized:
  assumes "headers r ''X-GitHub-Event'' = Some ev"
    and "headers r ''X-Hub-Signature'' = Some sig"
    and "signature_check hexdigest key sig (data r) = Inr False"
  shows "issues_hooklistener hexdigest key loads r s
           = (Inr (Some (''Move along, nothing to see here'', 401, TEXT_PLAIN)), s)"
  using assms by (simp add: issues_hooklistener_def is_github_hook_def)

lemma forbidden_only_unrecognized:
  assumes "issues_hooklistener hexdigest key loads r s = (Inr (Some (b, 403, hs)), s')"
  shows "is_github_hook hexdigest key r = Inr True
         \<and> headers r ''X-GitHub-Event''
              \<notin> {Some ''issues'', Some ''label'', Some ''milestone'', Some ''ping''}"
proof -
  obtain payload act chg where pb: "parse_body loads (data r) = (payload, act, chg)"
    by (cases "parse_body loads (data r)") auto
  have hook: "is_github_hook hexdigest key r = Inr True"
    using assms by (auto simp: issues_hooklistener_def split: sum.splits if_splits)
  have "headers r ''X-GitHub-Event'' \<noteq> Some ''issues''"
    using assms hook pb issues_branch_status [of payload act chg s b 403 hs s']
    by (auto simp: issues_hooklistener_def)
  moreover have "headers r ''X-GitHub-Event'' \<noteq> Some ''label''"
    using assms hook pb
    by (auto simp: issues_hooklistener_def then_do_none split: sum.splits)
  moreover have "headers r ''X-GitHub-Event'' \<noteq> Some ''milestone''"
    using assms hook pb
    by (auto simp: issues_hooklistener_def then_do_none MEH_RESPONSE_def
        split: sum.splits if_splits)
  moreover have "headers r ''X-GitHub-Event'' \<noteq> Some ''ping''"
    using assms hook pb by (auto simp: issues_hooklistener_def)
  ultimately show ?thesis using hook by simp
qed

lemma unrecognized_forbidden:
  assumes "is_github_hook hexdigest key r = Inr True"
    and "headers r ''X-GitHub-Event''
           \<notin> {Some ''issues'', Some ''label'', Some ''milestone'', Some ''ping''}"
  shows "issues_hooklistener hexdigest key loads r s = (Inr (Some NO_AUTH), s)"
  using assms by (auto simp: issues_hooklistener_def split: prod.splits)

section \<open>The dispatcher\<close>

text \<open>
  C1. A signed, desirable issue notification with action \<^verbatim>\<open>reopened\<close> for the closed
  issue 42 is not routed to the status change: the handler appends the Event (and raises
  KeyError while building the log message), and the issue is still closed, in the
  database and in the session.
\<close>

theorem reopened_leaves_issue_closed:
  "(let (res, s') = issues_hooklistener example_hexdigest ''secret''
            (decode_as (issue_payload ''reopened'' (JStr ''Site broken on load'') JNull))
            (signed_request ''issues'' ''reopened #42'') (session_of example_store [])
    in res = Inl KeyError
       \<and> map i_is_open (issue_table (committed s')) = [False]
       \<and> map i_is_open (issue_table (pending s')) = [False]
       \<and> map e_action (event_table (committed s')) = [JStr ''reopened''])"
  by (simp add: eval_defs)

text \<open>
  C2. Issue 42 has milestone 3. A \<^verbatim>\<open>milestoned\<close> notification for it raises KeyError
  in \<^verbatim>\<open>issue_milestone_change\<close> (there is no \<^verbatim>\<open>info['milestone_id']\<close>); the
  \<^verbatim>\<open>unmilestoned\<close> notification that follows raises KeyError in the extractor (it
  reads \<^verbatim>\<open>payload['label']\<close>) and would not reach the milestone transition either.
  After the pair the issue still has its milestone.
\<close>

theorem milestoned_unmilestoned_keeps_milestone:
  "(let (res1, s1) = issues_hooklistener example_hexdigest ''secret''
            (decode_as (issue_payload ''milestoned'' (JStr ''Site broken on load'')
               (JObj [(''title'', JStr ''needsdiagnosis'')])))
            (signed_request ''issues'' ''milestoned #42'') (session_of example_store []);
        (res2, s2) = issues_hooklistener example_hexdigest ''secret''
            (decode_as (issue_payload ''unmilestoned'' (JStr ''Site broken on load'') JNull))
            (signed_request ''issues'' ''unmilestoned #42'') s1
    in res1 = Inl KeyError \<and> res2 = Inl KeyError
       \<and> map i_milestone_id (issue_table (committed s2)) = [Some 3]
       \<and> map i_milestone_id (issue_table (pending s2)) = [Some 3])"
  by (simp add: eval_defs)

text \<open>
  C3. A signed issue notification whose body is not JSON: no row is created, and the
  handler does not answer; it raises UnboundLocalError.
\<close>

theorem malformed_json_raises:
  "issues_hooklistener example_hexdigest ''secret'' decode_error
     (signed_request ''issues'' ''{'') (session_of example_store [])
   = (Inl UnboundLocalError, session_of example_store [])"
proof -
  have ok: "is_github_hook example_hexdigest ''secret'' (signed_request ''issues'' ''{'') = Inr True"
    by (simp add: hook_defs)
  have bad: "decode_error (data (signed_request ''issues'' ''{'')) = None"
    by (simp add: decode_error_def)
  have ev: "headers (signed_request ''issues'' ''{'') ''X-GitHub-Event''
              \<in> {Some ''issues'', Some ''label'', Some ''milestone''}"
    by (simp add: signed_request_def)
  show ?thesis
    using malformed_json_unbound [of example_hexdigest "''secret''" "signed_request ''issues'' ''{''" decode_error, OF ok bad ev]
    by simp
qed




section \<open>Label notifications\<close>

text \<open>
  C8. The signed label notification \<^verbatim>\<open>edited\<close> with
  \<^verbatim>\<open>changes = {name: {from: "bug"}}\<close> and \<^verbatim>\<open>label.name = "defect"\<close>, on a database
  holding the label \<^verbatim>\<open>bug\<close>: the new name is assigned to the query object, the commit
  has nothing to write, and the label is still called \<^verbatim>\<open>bug\<close>. The view function
  returns no response.
\<close>

theorem label_rename_not_applied:
  "(let (res, s') = issues_hooklistener example_hexdigest ''secret'' (decode_as label_rename_payload)
            (signed_request ''label'' ''label edited'') (session_of example_store [])
    in res = Inr None
       \<and> map l_name (label_table (committed s')) = [JStr ''bug'']
       \<and> map l_name (label_table (pending s')) = [JStr ''bug''])"
  by (simp add: eval_defs)

section \<open>Signature validation: properties\<close>

text \<open>
  C5. A signature header with the \<^verbatim>\<open>sha1=\<close> prefix and a second \<^verbatim>\<open>=\<close> makes
  \<^verbatim>\<open>signature_check\<close> raise ValueError, whatever the key and the payload are.
\<close>

theorem signature_check_too_many_parts:
  "signature_check hexdigest key ''sha1=ab=cd'' payload = Inl ValueError"
  by (simp add: signature_check_def)

text \<open>
  C9, as the code has it. A request with the category header whose signature header
  \<^verbatim>\<open>signature_check\<close> rejects is answered with status 401 and nothing is changed; a
  request without the category header gets the same answer. Status 403 is the answer
  to the requests that pass hook validation with a category other than
  \<^verbatim>\<open>issues\<close>, \<^verbatim>\<open>label\<close>, \<^verbatim>\<open>milestone\<close> and \<^verbatim>\<open>ping\<close>, and to no other request.
\<close>

theorem invalid_signature_response:
  "(headers r ''X-GitHub-Event'' = Some ev \<and> headers r ''X-Hub-Signature'' = Some sig
      \<and> signature_check hexdigest key sig (data r) = Inr False
      \<longrightarrow> issues_hooklistener hexdigest key loads r s
            = (Inr (Some (''Move along, nothing to see here'', 401, TEXT_PLAIN)), s))
   \<and> (headers r ''X-GitHub-Event'' = None
      \<longrightarrow> issues_hooklistener hexdigest key loads r s
            = (Inr (Some (''Move along, nothing to see here'', 401, TEXT_PLAIN)), s))
   \<and> (issues_hooklistener hexdigest key loads r s = (Inr (Some (b, 403, hs)), s')
      \<longrightarrow> is_github_hook hexdigest key r = Inr True
          \<and> headers r ''X-GitHub-Event''
               \<notin> {Some ''issues'', Some ''label'', Some ''milestone'', Some ''ping''})
   \<and> (is_github_hook hexdigest key r = Inr True
      \<and> headers r ''X-GitHub-Event''
           \<notin> {Some ''issues'', Some ''label'', Some ''milestone'', Some ''ping''}
      \<longrightarrow> issues_hooklistener hexdigest key loads r s
            = (Inr (Some (''This is not the hook we seek.'', 403, TEXT_PLAIN)), s))"
proof -
  have "is_github_hook hexdigest key r = Inr True
      \<and> headers r ''X-GitHub-Event''
           \<notin> {Some ''issues'', Some ''label'', Some ''milestone'', Some ''ping''}
      \<longrightarrow> issues_hooklistener hexdigest key loads r s
            = (Inr (Some (''This is not the hook we seek.'', 403, TEXT_PLAIN)), s)"
    using unrecognized_forbidden [of hexdigest key r loads s] by (simp add: NO_AUTH_def)
  then show ?thesis
    using rejected_signature_unauthorized [of r ev sig hexdigest key loads s]
      missing_category_unauthorized [of r hexdigest key loads s]
      forbidden_only_unrecognized [of hexdigest key loads r s b hs s']
    by blast
qed

theorem invalid_signature_response_witness:
  "signature_check example_hexdigest ''secret'' ''md5=00ff'' ''{}'' = Inr False
   \<and> issues_hooklistener example_hexdigest ''secret'' decode_error
        \<lparr>headers = [''X-GitHub-Event'' \<mapsto> ''label'', ''X-Hub-Signature'' \<mapsto> ''md5=00ff''],
         data = ''{}''\<rparr> (session_of example_store [True])
      = (Inr (Some (''Move along, nothing to see here'', 401, TEXT_PLAIN)),
         session_of example_store [True])
   \<and> issues_hooklistener example_hexdigest ''secret'' decode_error
        \<lparr>headers = [''X-Hub-Signature'' \<mapsto> ''sha1='' @ example_digest], data = ''{}''\<rparr>
        (session_of example_store [True])
      = (Inr (Some (''Move along, nothing to see here'', 401, TEXT_PLAIN)),
         session_of example_store [True])
   \<and> is_github_hook example_hexdigest ''secret'' (signed_request ''push'' ''{}'') = Inr True
   \<and> headers (signed_request ''push'' ''{}'') ''X-GitHub-Event''
        \<notin> {Some ''issues'', Some ''label'', Some ''milestone'', Some ''ping''}
   \<and> issues_hooklistener example_hexdigest ''secret'' decode_error
        (signed_request ''push'' ''{}'') (session_of example_store [True])
      = (Inr (Some (''This is not the hook we seek.'', 403, TEXT_PLAIN)),
         session_of example_store [True])"
proof -
  let ?bad = "\<lparr>headers = [''X-GitHub-Event'' \<mapsto> ''label'', ''X-Hub-Signature'' \<mapsto> ''md5=00ff''],
               data = ''{}''\<rparr>"
  let ?nocat = "\<lparr>headers = [''X-Hub-Signature'' \<mapsto> ''sha1='' @ example_digest], data = ''{}''\<rparr>"
  have e: "headers ?bad ''X-GitHub-Event'' = Some ''label''" by simp
  have g: "headers ?bad ''X-Hub-Signature'' = Some ''md5=00ff''" by simp
  have c: "signature_check example_hexdigest ''secret'' ''md5=00ff'' (data ?bad) = Inr False"
    by (simp add: hook_defs)
  have n: "headers ?nocat ''X-GitHub-Event'' = None" by simp
  have v: "is_github_hook example_hexdigest ''secret'' (signed_request ''push'' ''{}'') = Inr True"
    by (simp add: hook_defs)
  have u: "headers (signed_request ''push'' ''{}'') ''X-GitHub-Event''
             \<notin> {Some ''issues'', Some ''label'', Some ''milestone'', Some ''ping''}"
    by (simp add: signed_request_def)
  show ?thesis
    using e g c n v u
      invalid_signature_response [of ?bad "''label''" "''md5=00ff''" example_hexdigest "''secret''"
        decode_error "session_of example_store [True]"]
      invalid_signature_response [of ?nocat _ _ example_hexdigest "''secret''"
        decode_error "session_of example_store [True]"]
      invalid_signature_response [of "signed_request ''push'' ''{}''" _ _ example_hexdigest
        "''secret''" decode_error "session_of example_store [True]"]
    by simp
qed

text \<open>
  C9 as stated fails: an issue notification whose signature header has the right form
  and the wrong digest is answered with 401, not 403.
\<close>

theorem invalid_signature_status:
  "issues_hooklistener example_hexdigest ''secret'' decode_error
     \<lparr>headers = [''X-GitHub-Event'' \<mapsto> ''issues'', ''X-Hub-Signature'' \<mapsto> ''sha1=00ff''],
      data = ''{}''\<rparr> (session_of example_store [])
   = (Inr (Some (''Move along, nothing to see here'', 401, TEXT_PLAIN)), session_of example_store [])"
  by (simp add: eval_defs)

text \<open>
  C10. A request without the signature header is rejected: hook validation returns
  False whatever the body and the other headers are, also when the category header
  is present.
\<close>

theorem is_github_hook_no_signature:
  "headers r ''X-Hub-Signature'' = None \<Longrightarrow> is_github_hook hexdigest key r = Inr False"
  by (simp add: is_github_hook_def)

theorem is_github_hook_no_signature_witness:
  "headers \<lparr>headers = [''X-GitHub-Event'' \<mapsto> ''issues''], data = ''{}''\<rparr> ''X-Hub-Signature'' = None
   \<and> is_github_hook example_hexdigest ''secret''
        \<lparr>headers = [''X-GitHub-Event'' \<mapsto> ''issues''], data = ''{}''\<rparr> = Inr False"
proof -
  have h: "headers \<lparr>headers = [''X-GitHub-Event'' \<mapsto> ''issues''], data = ''{}''\<rparr>
             ''X-Hub-Signature'' = None"
    by simp
  show ?thesis
    using h is_github_hook_no_signature [OF h, of example_hexdigest "''secret''"] by blast
qed

section \<open>Event classification: properties\<close>

text \<open>
  C6, as the code has it. The seven actions opened, closed, reopened, labeled,
  unlabeled, milestoned and unmilestoned are desirable whatever the changes are;
  assigned and unassigned are not; an edit with a changes map is desirable exactly when
  the map has a \<^verbatim>\<open>title\<close> entry whose value is truthy.
\<close>

theorem is_desirable_issue_event_classification:
  "is_desirable_issue_event (JStr ''opened'') chg = Inr True
   \<and> is_desirable_issue_event (JStr ''closed'') chg = Inr True
   \<and> is_desirable_issue_event (JStr ''reopened'') chg = Inr True
   \<and> is_desirable_issue_event (JStr ''labeled'') chg = Inr True
   \<and> is_desirable_issue_event (JStr ''unlabeled'') chg = Inr True
   \<and> is_desirable_issue_event (JStr ''milestoned'') chg = Inr True
   \<and> is_desirable_issue_event (JStr ''unmilestoned'') chg = Inr True
   \<and> is_desirable_issue_event (JStr ''assigned'') chg = Inr False
   \<and> is_desirable_issue_event (JStr ''unassigned'') chg = Inr False
   \<and> is_desirable_issue_event (JStr ''edited'') (JObj kvs)
       = Inr (case map_of kvs ''title'' of None \<Rightarrow> False | Some v \<Rightarrow> truthy v)"
proof -
  have edited: "is_desirable_issue_event (JStr ''edited'') (JObj kvs)
       = Inr (case map_of kvs ''title'' of None \<Rightarrow> False | Some v \<Rightarrow> truthy v)"
    by (cases kvs) (auto simp: is_desirable_issue_event_def bind_exn_def split: option.splits)
  show ?thesis
    using edited by (simp add: is_desirable_issue_event_def)
qed

theorem is_desirable_issue_event_classification_witness:
  "is_desirable_issue_event (JStr ''opened'') JNull = Inr True
   \<and> is_desirable_issue_event (JStr ''assigned'') JNull = Inr False
   \<and> is_desirable_issue_event (JStr ''edited'')
        (JObj [(''title'', JObj [(''from'', JStr ''Site broken on load'')])]) = Inr True
   \<and> is_desirable_issue_event (JStr ''edited'')
        (JObj [(''body'', JObj [(''from'', JStr ''It is broken.'')])]) = Inr False"
  using is_desirable_issue_event_classification
          [of JNull "[(''title'', JObj [(''from'', JStr ''Site broken on load'')])]"]
        is_desirable_issue_event_classification
          [of JNull "[(''body'', JObj [(''from'', JStr ''It is broken.'')])]"]
  by simp

text \<open>
  C6 as stated fails: a changes map that contains the key \<^verbatim>\<open>title\<close> with the value
  \<^verbatim>\<open>null\<close> is not desirable.
\<close>

theorem edited_with_null_title_not_desirable:
  "map_of [(''title'', JNull)] ''title'' \<noteq> None
   \<and> is_desirable_issue_event (JStr ''edited'') (JObj [(''title'', JNull)]) = Inr False"
  by (simp add: is_desirable_issue_event_def bind_exn_def)

section \<open>Event extraction: properties\<close>

text \<open>
  C7. For the action \<^verbatim>\<open>unmilestoned\<close> the extractor takes the branch of the label
  actions and reads \<^verbatim>\<open>payload['label']\<close>: on a payload without that key it raises
  KeyError, whether the issue still carries its milestone or not, and produces no
  record.
\<close>

theorem unmilestoned_extraction_raises:
  "extract_issue_event_info
     (issue_payload ''unmilestoned'' (JStr ''Site broken on load'')
        (JObj [(''title'', JStr ''needsdiagnosis'')]))
     (JStr ''unmilestoned'') JNull = Inl KeyError
   \<and> extract_issue_event_info
     (issue_payload ''unmilestoned'' (JStr ''Site broken on load'') JNull)
     (JStr ''unmilestoned'') JNull = Inl KeyError"
  by (simp add: eval_defs)

end
